theory Spec2Isabelle
  imports Complex_Main
begin

section \<open>The node-fitting driver (miniapps/meshing/tmop-fit-position.cpp)\<close>

text \<open>
  The driver is the function \<^verbatim>\<open>main\<close>. Everything it calls lives in the MFEM library:
  the mesh reader, the finite element space, the solvers and the visualisation. Those
  calls are parameters of the model (the record \<open>library\<close> below); the statements of
  \<^verbatim>\<open>main\<close> itself are translated line by line.

  A C++ \<^verbatim>\<open>double\<close> is modelled as a real number and a literal such as \<^verbatim>\<open>1e-10\<close> by its
  decimal value; a C++ \<^verbatim>\<open>int\<close> is an \<open>int\<close> (the driver's only integer arithmetic is
  the index computation \<^verbatim>\<open>nd+j\<close>, \<^verbatim>\<open>2*nd+j\<close> inside one element's DOF list). A
  \<^verbatim>\<open>Vector\<close>, \<^verbatim>\<open>GridFunction\<close> or \<^verbatim>\<open>Array\<close> is the list of its entries. An access
  outside an array is undefined behaviour in C++ (an assertion in a debug build): the
  model returns the error \<open>IndexOutOfRange\<close> there. A library call that aborts the
  program is the error \<open>LibraryAbort\<close>.
\<close>

datatype error = IndexOutOfRange | LibraryAbort

definition then_r :: "error + 'a \<Rightarrow> ('a \<Rightarrow> error + 'b) \<Rightarrow> error + 'b" where
  "then_r m f = (case m of Inl e \<Rightarrow> Inl e | Inr v \<Rightarrow> f v)"

text \<open>\<^verbatim>\<open>a[i]\<close> and \<^verbatim>\<open>a(i)\<close> as an rvalue, and as the target of an assignment.\<close>

definition elem :: "'a list \<Rightarrow> int \<Rightarrow> error + 'a" where
  "elem xs i = (if 0 \<le> i \<and> i < int (length xs) then Inr (xs ! nat i) else Inl IndexOutOfRange)"

definition put :: "'a list \<Rightarrow> int \<Rightarrow> 'a \<Rightarrow> error + 'a list" where
  "put xs i v =
     (if 0 \<le> i \<and> i < int (length xs) then Inr (xs[nat i := v]) else Inl IndexOutOfRange)"

text \<open>A counted \<^verbatim>\<open>for\<close> loop whose body may fail: the first error ends the run.\<close>

fun for_r :: "'i list \<Rightarrow> ('s \<Rightarrow> 'i \<Rightarrow> error + 's) \<Rightarrow> 's \<Rightarrow> error + 's" where
  "for_r [] body s = Inr s"
| "for_r (i # rest) body s =
     (case body s i of Inl e \<Rightarrow> Inl e | Inr s' \<Rightarrow> for_r rest body s')"

subsection \<open>Command line (lines 41-62)\<close>

text \<open>
  The four options with the values \<^verbatim>\<open>OptionsParser\<close> left in them, and the answer of
  \<^verbatim>\<open>args.Good()\<close>.
\<close>

record options =
  Good :: bool
  mesh_file :: string
  rs_levels :: int
  mesh_poly_deg :: int
  quad_order :: int

subsection \<open>Mesh curvature (lines 71-78)\<close>

datatype fe_collection = QuadraticPosFECollection | H1_FECollection int int

text \<open>The collection chosen for the nodes, and the value of \<^verbatim>\<open>mesh_poly_deg\<close> afterwards.\<close>

definition fec_mesh :: "int \<Rightarrow> int \<Rightarrow> fe_collection \<times> int" where
  "fec_mesh poly_deg d =
     (if poly_deg \<le> 0 then (QuadraticPosFECollection, 2)
      else (H1_FECollection poly_deg d, poly_deg))"

subsection \<open>What the library reports about the finite element space\<close>

text \<open>
  One boundary element \<^verbatim>\<open>e\<close>: \<^verbatim>\<open>pmesh.GetBdrElement(e)->GetAttribute()\<close>,
  \<^verbatim>\<open>pfes_mesh.GetBE(e)->GetDof()\<close> and the array filled by
  \<^verbatim>\<open>pfes_mesh.GetBdrElementVDofs(e, vdofs)\<close>.
\<close>

record bdr_element =
  GetAttribute :: int
  GetDof :: int
  BdrElementVDofs :: "int list"

text \<open>
  The space \<^verbatim>\<open>pfes_mesh\<close>: \<^verbatim>\<open>GetNDofs()\<close>, the boundary elements
  \<^verbatim>\<open>0 .. GetNBE()-1\<close> in their order, and the nodal coordinates that
  \<^verbatim>\<open>SetNodalGridFunction(&coord)\<close> leaves in \<^verbatim>\<open>coord\<close>.
\<close>

record fespace =
  GetNDofs :: int
  bdr_elements :: "bdr_element list"
  nodes :: "real list"

subsection \<open>Quality metric, target and solver objects set up by the driver\<close>

datatype quality_metric = TMOP_Metric_002 | TMOP_Metric_302

text \<open>
  The enumeration \<^verbatim>\<open>TargetConstructor::TargetType\<close>. The driver names one enumerator; the
  declaration is library code, so the other enumerators are kept by their number.
\<close>

datatype target_type = IDEAL_SHAPE_UNIT_SIZE | Other_TargetType nat

text \<open>The two solver classes of which the driver constructs an object (lines 146, 156).\<close>

datatype solver_class = MINRESSolver | TMOPNewtonSolver

text \<open>
  Modelled from the spec: the setters of \<^verbatim>\<open>IterativeSolver\<close> and \<^verbatim>\<open>TMOPNewtonSolver\<close> are
  library code that is not among the sources. The spec names the parameters they
  set (max iterations, relative and absolute tolerance in 4.5 and 4.6; the adaptive
  fitting weight and the surface-fit termination threshold in 4.6); each setter stores
  its argument in the parameter of its name and leaves the others as they are.
\<close>

record iterative_solver =
  max_iter :: int
  rel_tol :: real
  abs_tol :: real
  print_level :: int

record newton_solver = iterative_solver +
  adaptive_surf_fit :: bool
  surf_fit_max_threshold :: "real option"

definition SetMaxIter :: "int \<Rightarrow> 'a iterative_solver_scheme \<Rightarrow> 'a iterative_solver_scheme" where
  "SetMaxIter n s = s\<lparr>max_iter := n\<rparr>"

definition SetRelTol :: "real \<Rightarrow> 'a iterative_solver_scheme \<Rightarrow> 'a iterative_solver_scheme" where
  "SetRelTol t s = s\<lparr>rel_tol := t\<rparr>"

definition SetAbsTol :: "real \<Rightarrow> 'a iterative_solver_scheme \<Rightarrow> 'a iterative_solver_scheme" where
  "SetAbsTol t s = s\<lparr>abs_tol := t\<rparr>"

definition SetPrintLevel :: "int \<Rightarrow> 'a iterative_solver_scheme \<Rightarrow> 'a iterative_solver_scheme" where
  "SetPrintLevel l s = s\<lparr>print_level := l\<rparr>"

definition EnableAdaptiveSurfaceFitting :: "newton_solver \<Rightarrow> newton_solver" where
  "EnableAdaptiveSurfaceFitting s = s\<lparr>adaptive_surf_fit := True\<rparr>"

definition SetTerminationWithMaxSurfaceFittingError :: "real \<Rightarrow> newton_solver \<Rightarrow> newton_solver" where
  "SetTerminationWithMaxSurfaceFittingError eps s = s\<lparr>surf_fit_max_threshold := Some eps\<rparr>"

text \<open>
  The integrator after \<^verbatim>\<open>EnableSurfaceFitting(coord_target, fit_marker, fit_weight)\<close>:
  the metric, the target, and the three arguments of the fitting term.
\<close>

record tmop_integrator =
  metric :: quality_metric
  target :: target_type
  surf_fit_pos :: "real list"
  surf_fit_marker :: "bool list"
  surf_fit_coeff :: real

text \<open>
  Everything the driver has configured when it calls \<^verbatim>\<open>solver.Mult\<close>: the solver object
  of line 156 and its class, the object that line 158 installs as its preconditioner and
  the class of that object, the integrator, and the order of the quadrature rule.
\<close>

record solver_setup =
  newton_class :: solver_class
  newton :: newton_solver
  prec_class :: solver_class
  prec :: iterative_solver
  integ :: tmop_integrator
  ir_order :: int

subsection \<open>The library\<close>

text \<open>
  \<^item> \<open>Mesh_read\<close>: the \<^verbatim>\<open>Mesh\<close> constructor on a file name; \<open>None\<close> when it aborts.
  \<^item> \<open>UniformRefinement\<close>, \<open>Dimension\<close>: the mesh methods of these names.
  \<^item> \<open>ParFiniteElementSpace\<close>: the space built over the mesh from a collection, with
    the nodal grid function installed (lines 79-82).
  \<^item> \<open>MINRES_new\<close>, \<open>Newton_new\<close>: the two solver objects as their constructors leave
    them.
  \<^item> \<open>GetTrueVector\<close>, \<open>SetFromTrueVector\<close>: the true-DOF vector of a grid function
    and back (lines 168, 170).
  \<^item> \<open>Mult\<close>: \<^verbatim>\<open>solver.Mult(b, x)\<close> with an empty right-hand side; the new \<^verbatim>\<open>x\<close>, or
    \<open>None\<close> when the library aborts.
\<close>

record 'm library =
  Mesh_read :: "string \<Rightarrow> 'm option"
  UniformRefinement :: "'m \<Rightarrow> 'm"
  Dimension :: "'m \<Rightarrow> int"
  ParFiniteElementSpace :: "'m \<Rightarrow> fe_collection \<Rightarrow> int \<Rightarrow> fespace"
  MINRES_new :: iterative_solver
  Newton_new :: newton_solver
  GetTrueVector :: "fespace \<Rightarrow> real list \<Rightarrow> real list"
  SetFromTrueVector :: "fespace \<Rightarrow> real list \<Rightarrow> real list"
  Mult :: "solver_setup \<Rightarrow> real list \<Rightarrow> real list option"

subsection \<open>The driver's variables\<close>

text \<open>
  The grid functions and arrays of \<^verbatim>\<open>main\<close>, each with storage of its own
  (\<^verbatim>\<open>x0(coord)\<close> and \<^verbatim>\<open>coord_target = coord\<close> copy the entries), and what was sent to the
  two visualisation windows: the title, the mesh nodes at that moment, the field shown.
\<close>

record driver =
  coord :: "real list"
  x0 :: "real list"
  coord_target :: "real list"
  fit_marker :: "bool list"
  fit_marker_vis_gf :: "real list"
  shown :: "(string \<times> real list \<times> real list) list"

subsection \<open>Picking the nodes to fit and their targets (lines 86-126)\<close>

text \<open>
  Lines 105-124: the assignment to \<^verbatim>\<open>coord_target(j_y)\<close>. The conditions read
  \<^verbatim>\<open>coord(j_y)\<close> and \<^verbatim>\<open>coord(j_x)\<close> again.
\<close>

definition fit_target ::
  "int \<Rightarrow> real list \<Rightarrow> int \<Rightarrow> int \<Rightarrow> real \<Rightarrow> real \<Rightarrow> real \<Rightarrow> real list \<Rightarrow> error + real list" where
  "fit_target attr crd j_x j_y x y z tgt =
     (if attr = 2 then
        then_r (elem crd j_y) (\<lambda>cy.
          if cy < 0.5 then put tgt j_y (0.1 * sin (4 * pi * x) * cos (pi * z))
          else
            then_r (elem crd j_x) (\<lambda>cx.
              if cx < 0.5 then put tgt j_y (1.0 + 0.1 * sin (2 * pi * x))
              else put tgt j_y (1.0 + 0.1 * sin (2 * pi * (x + 0.5)))))
      else put tgt j_y y)"

text \<open>The body of the inner loop, lines 100-124, for one \<^verbatim>\<open>j\<close>.\<close>

definition fit_dof :: "int \<Rightarrow> int \<Rightarrow> int \<Rightarrow> int list \<Rightarrow> driver \<Rightarrow> int \<Rightarrow> error + driver" where
  "fit_dof d attr nd vdofs s j =
     then_r (elem vdofs j) (\<lambda>j_x.
     then_r (elem vdofs (nd + j)) (\<lambda>j_y.
     then_r (elem (coord s) j_x) (\<lambda>x.
     then_r (elem (coord s) j_y) (\<lambda>y.
     then_r (if d = 2 then Inr 0.0
             else then_r (elem vdofs (2 * nd + j)) (elem (coord s))) (\<lambda>z.
     then_r (put (fit_marker s) j_x True) (\<lambda>marker.
     then_r (put (fit_marker_vis_gf s) j_x 1.0) (\<lambda>vis_gf.
     then_r (fit_target attr (coord s) j_x j_y x y z (coord_target s)) (\<lambda>tgt.
     Inr (s\<lparr>fit_marker := marker, fit_marker_vis_gf := vis_gf,
            coord_target := tgt\<rparr>)))))))))"

text \<open>The body of the outer loop, lines 95-125, for one boundary element.\<close>

definition fit_bdr_element :: "int \<Rightarrow> driver \<Rightarrow> bdr_element \<Rightarrow> error + driver" where
  "fit_bdr_element d s be =
     for_r (map int [0 ..< nat (GetDof be)])
       (fit_dof d (GetAttribute be) (GetDof be) (BdrElementVDofs be)) s"

text \<open>
  Lines 81-92: the variables when the loop starts. \<^verbatim>\<open>coord\<close> holds the nodes of the mesh,
  \<^verbatim>\<open>x0\<close> and \<^verbatim>\<open>coord_target\<close> are copies of it, \<^verbatim>\<open>fit_marker\<close> has \<^verbatim>\<open>GetNDofs()\<close> entries,
  all false, and \<^verbatim>\<open>fit_marker_vis_gf\<close>, a grid function on the same space as \<^verbatim>\<open>coord\<close>, is
  zero.
\<close>

definition init_driver :: "fespace \<Rightarrow> driver" where
  "init_driver fes =
     \<lparr>coord = nodes fes, x0 = nodes fes, coord_target = nodes fes,
      fit_marker = replicate (nat (GetNDofs fes)) False,
      fit_marker_vis_gf = replicate (length (nodes fes)) 0,
      shown = []\<rparr>"

definition fit_setup :: "int \<Rightarrow> fespace \<Rightarrow> error + driver" where
  "fit_setup d fes = for_r (bdr_elements fes) (fit_bdr_element d) (init_driver fes)"

text \<open>
  The entries of one boundary element's \<^verbatim>\<open>vdofs\<close> that the loop reads as \<^verbatim>\<open>j_x\<close>
  (\<^verbatim>\<open>vdofs[j]\<close>) and as \<^verbatim>\<open>j_y\<close> (\<^verbatim>\<open>vdofs[nd+j]\<close>), for \<^verbatim>\<open>0 <= j < nd\<close>, and the
  \<^verbatim>\<open>j_y\<close> of all boundary elements with attribute 2.
\<close>

definition x_vdofs :: "bdr_element \<Rightarrow> int list" where
  "x_vdofs be = take (nat (GetDof be)) (BdrElementVDofs be)"

definition y_vdofs :: "bdr_element \<Rightarrow> int list" where
  "y_vdofs be = take (nat (GetDof be)) (drop (nat (GetDof be)) (BdrElementVDofs be))"

definition fitted_y :: "fespace \<Rightarrow> int list" where
  "fitted_y fes =
     concat (map y_vdofs (filter (\<lambda>be. GetAttribute be = 2) (bdr_elements fes)))"

text \<open>
  The layout \<^verbatim>\<open>Ordering::byNODES\<close>, which the space of line 79 has by default and
  which line 86 relies on when it gives \<^verbatim>\<open>fit_marker\<close> the size \<^verbatim>\<open>GetNDofs()\<close> and
  indexes it with \<^verbatim>\<open>j_x\<close>: the x component of node \<open>v\<close> is entry \<open>v\<close>, its y component
  is entry \<open>v + GetNDofs()\<close>.
\<close>

definition byNODES :: "fespace \<Rightarrow> bool" where
  "byNODES fes =
     list_all (\<lambda>be.
       2 * nat (GetDof be) \<le> length (BdrElementVDofs be) \<and>
       (\<forall>j \<in> set [0 ..< nat (GetDof be)].
          0 \<le> BdrElementVDofs be ! j \<and> BdrElementVDofs be ! j < GetNDofs fes \<and>
          BdrElementVDofs be ! (nat (GetDof be) + j) = BdrElementVDofs be ! j + GetNDofs fes))
       (bdr_elements fes)"

text \<open>The \<^verbatim>\<open>j_x\<close> of all boundary elements: the indices at which line 103 sets the marker.\<close>

definition marked_x :: "fespace \<Rightarrow> int list" where
  "marked_x fes = concat (map x_vdofs (bdr_elements fes))"

text \<open>
  Two facts about the marker that the loop keeps: entry \<open>v\<close> exists and is set; and only
  entries with an index in \<open>X\<close> are set.
\<close>

definition marked :: "int \<Rightarrow> driver \<Rightarrow> bool" where
  "marked v s \<longleftrightarrow> 0 \<le> v \<and> nat v < length (fit_marker s) \<and> fit_marker s ! nat v"

definition marker_inv :: "int set \<Rightarrow> driver \<Rightarrow> bool" where
  "marker_inv X s \<longleftrightarrow> (\<forall>i < length (fit_marker s). fit_marker s ! i \<longrightarrow> int i \<in> X)"

text \<open>
  The loop invariant for the targets: \<^verbatim>\<open>coord_target\<close> has the size of \<^verbatim>\<open>coord\<close> and
  differs from it only at indices in \<open>Y\<close>.
\<close>

definition tgt_inv :: "int set \<Rightarrow> driver \<Rightarrow> bool" where
  "tgt_inv Y s \<longleftrightarrow> length (coord_target s) = length (coord s) \<and>
     (\<forall>i < length (coord s). coord_target s ! i \<noteq> coord s ! i \<longrightarrow> int i \<in> Y)"

subsection \<open>Showing the targets (lines 127-133)\<close>

definition show_targets :: "driver \<Rightarrow> driver" where
  "show_targets s =
     (let s1 = s\<lparr>coord := coord_target s\<rparr>;
          s2 = s1\<lparr>shown := shown s1 @
                 [(''Target positions (DOFS with value 1)'', coord s1, fit_marker_vis_gf s1)]\<rparr>
      in s2\<lparr>coord := x0 s2\<rparr>)"

subsection \<open>TMOP and solver setup (lines 135-164)\<close>

definition choose_metric :: "int \<Rightarrow> quality_metric" where
  "choose_metric d = (if d = 2 then TMOP_Metric_002 else TMOP_Metric_302)"

definition make_integ :: "int \<Rightarrow> driver \<Rightarrow> tmop_integrator" where
  "make_integ d s =
     \<lparr>metric = choose_metric d, target = IDEAL_SHAPE_UNIT_SIZE,
      surf_fit_pos = coord_target s, surf_fit_marker = fit_marker s,
      surf_fit_coeff = 100.0\<rparr>"

definition make_minres :: "iterative_solver \<Rightarrow> iterative_solver" where
  "make_minres m = SetAbsTol 0.0 (SetRelTol (1 / 10 ^ 12) (SetMaxIter 100 m))"

definition make_newton :: "newton_solver \<Rightarrow> newton_solver" where
  "make_newton n =
     SetTerminationWithMaxSurfaceFittingError (1 / 10 ^ 2)
       (EnableAdaptiveSurfaceFitting
         (SetAbsTol 0.0 (SetRelTol (1 / 10 ^ 10) (SetMaxIter 200 (SetPrintLevel 1 n)))))"

definition make_setup :: "'m library \<Rightarrow> int \<Rightarrow> int \<Rightarrow> driver \<Rightarrow> solver_setup" where
  "make_setup lib d qo s =
     \<lparr>newton_class = TMOPNewtonSolver, newton = make_newton (Newton_new lib),
      prec_class = MINRESSolver, prec = make_minres (MINRES_new lib),
      integ = make_integ d s, ir_order = qo\<rparr>"

subsection \<open>Solve (lines 166-174) and the whole of main\<close>

text \<open>Lines 168-169: the vector \<^verbatim>\<open>coord.GetTrueVector()\<close> that \<^verbatim>\<open>solver.Mult\<close> receives.\<close>

definition solver_input :: "'m library \<Rightarrow> fespace \<Rightarrow> driver \<Rightarrow> real list" where
  "solver_input lib fes s = GetTrueVector lib fes (coord s)"

definition solve :: "'m library \<Rightarrow> fespace \<Rightarrow> solver_setup \<Rightarrow> driver \<Rightarrow> error + driver" where
  "solve lib fes cfg s =
     (case Mult lib cfg (solver_input lib fes s) of
        None \<Rightarrow> Inl LibraryAbort
      | Some tv \<Rightarrow>
          (let s1 = s\<lparr>coord := SetFromTrueVector lib fes tv\<rparr>
           in Inr (s1\<lparr>shown := shown s1 @ [(''Final mesh'', coord s1, [])]\<rparr>)))"

text \<open>Lines 64-69: read the mesh and refine it \<^verbatim>\<open>rs_levels\<close> times.\<close>

definition read_mesh :: "'m library \<Rightarrow> options \<Rightarrow> error + 'm" where
  "read_mesh lib opts =
     (case Mesh_read lib (mesh_file opts) of
        None \<Rightarrow> Inl LibraryAbort
      | Some m \<Rightarrow> Inr ((UniformRefinement lib ^^ nat (rs_levels opts)) m))"

text \<open>Lines 64-133: the state in which the solver is set up and called.\<close>

definition before_solve :: "'m library \<Rightarrow> options \<Rightarrow> error + (int \<times> fespace \<times> driver)" where
  "before_solve lib opts =
     then_r (read_mesh lib opts) (\<lambda>pmesh.
       let d = Dimension lib pmesh;
           fec = fst (fec_mesh (mesh_poly_deg opts) d);
           fes = ParFiniteElementSpace lib pmesh fec d
       in then_r (fit_setup d fes) (\<lambda>s. Inr (d, fes, show_targets s)))"

definition run :: "'m library \<Rightarrow> options \<Rightarrow> error + driver" where
  "run lib opts =
     then_r (before_solve lib opts) (\<lambda>(d, fes, s).
       solve lib fes (make_setup lib d (quad_order opts) s) s)"

text \<open>The exit code of \<^verbatim>\<open>main\<close>, or the error that ended the run.\<close>

definition main :: "'m library \<Rightarrow> options \<Rightarrow> error + int" where
  "main lib opts =
     (if \<not> Good opts then Inr 1
      else case run lib opts of Inl e \<Rightarrow> Inl e | Inr s \<Rightarrow> Inr 0)"

section \<open>The library side, as the specification describes it\<close>

type_synonym matrix = "real list list"

subsection \<open>Quality metrics (spec 3 and 4.1)\<close>

text \<open>The squared Frobenius norm, the determinant of a 2x2 and of a 3x3 matrix, and the
  inverse of a 3x3 matrix (the adjugate over the determinant). A matrix is the list of its
  rows.\<close>

definition frob2 :: "matrix \<Rightarrow> real" where
  "frob2 T = sum_list (map (\<lambda>row. sum_list (map (\<lambda>v. v * v) row)) T)"

fun det2 :: "matrix \<Rightarrow> real" where
  "det2 [[a, b], [c, d]] = a * d - b * c"
| "det2 T = 0"

fun det3 :: "matrix \<Rightarrow> real" where
  "det3 [[a, b, c], [d, e, f], [g, h, i]] =
     a * (e * i - f * h) - b * (d * i - f * g) + c * (d * h - e * g)"
| "det3 T = 0"

fun inverse3 :: "matrix \<Rightarrow> matrix" where
  "inverse3 [[a, b, c], [d, e, f], [g, h, i]] =
     (let D = det3 [[a, b, c], [d, e, f], [g, h, i]] in
      [[(e * i - f * h) / D, (c * h - b * i) / D, (b * f - c * e) / D],
       [(f * g - d * i) / D, (a * i - c * g) / D, (c * d - a * f) / D],
       [(d * h - e * g) / D, (b * g - a * h) / D, (a * e - b * d) / D]])"
| "inverse3 T = T"

text \<open>The product of two matrices.\<close>

definition matmul :: "matrix \<Rightarrow> matrix \<Rightarrow> matrix" where
  "matmul A B = map (\<lambda>row. map (\<lambda>col. sum_list (map2 (*) row col)) (transpose B)) A"

text \<open>
  Modelled from the spec: the classes \<^verbatim>\<open>TMOP_Metric_002\<close> and \<^verbatim>\<open>TMOP_Metric_302\<close> are library
  code that is not among the sources. Spec 3 gives the two formulas; spec 4.1 says that
  the metric takes a matrix with positive determinant and signals an invalid Jacobian
  (here \<open>None\<close>) when the determinant is not positive.
\<close>

fun EvalW :: "quality_metric \<Rightarrow> matrix \<Rightarrow> real option" where
  "EvalW TMOP_Metric_002 T =
     (if det2 T \<le> 0 then None else Some (1 / 2 * frob2 T / det2 T - 1))"
| "EvalW TMOP_Metric_302 T =
     (if det3 T \<le> 0 then None else Some (frob2 T * frob2 (inverse3 T) / 9 - 1))"

subsection \<open>Target constructor (spec 4.2)\<close>

definition identity_matrix :: "nat \<Rightarrow> matrix" where
  "identity_matrix n = map (\<lambda>i. map (\<lambda>j. if i = j then 1 else 0) [0 ..< n]) [0 ..< n]"

text \<open>
  Modelled from the spec: the class \<^verbatim>\<open>TargetConstructor\<close> is library code that is not among
  the sources. Spec 4.2: for an element \<open>e\<close> and a quadrature point index \<open>q\<close> it returns
  the target Jacobian, which for \<^verbatim>\<open>IDEAL_SHAPE_UNIT_SIZE\<close> is the identity of the
  dimension \<open>n\<close>; it has no state, so it is a function of its arguments. The spec does
  not say what the other variants return: \<open>other k n e q\<close>, a parameter, is the target
  Jacobian of variant number \<open>k\<close>, which may depend on the element and the point.
\<close>

fun target_jacobian ::
  "(nat \<Rightarrow> nat \<Rightarrow> nat \<Rightarrow> nat \<Rightarrow> matrix) \<Rightarrow> target_type \<Rightarrow> nat \<Rightarrow> nat \<Rightarrow> nat \<Rightarrow> matrix" where
  "target_jacobian other IDEAL_SHAPE_UNIT_SIZE n e q = identity_matrix n"
| "target_jacobian other (Other_TargetType k) n e q = other k n e q"

subsection \<open>The TMOP Newton solver (spec 4.6)\<close>

text \<open>
  Modelled from the spec: \<^verbatim>\<open>TMOPNewtonSolver::Mult\<close> is library code that is not among the
  sources. The model follows the per-iteration contract of spec 4.6 step by step. What
  the contract takes from the other components is a parameter:
  \<^item> \<open>n_elem\<close>, \<open>n_quad\<close>, \<open>detJ\<close>: the number of elements and of quadrature points
    per element, and the determinant of the Jacobian of the geometric map of the
    coordinates \<open>x\<close> at quadrature point \<open>q\<close> of element \<open>e\<close>;
  \<^item> \<open>energy\<close>: the objective \<open>F(x; w)\<close> where no element is inverted;
  \<^item> \<open>residual\<close>: \<open>Mult(x)\<close> of the nonlinear form (spec 4.4), for the weight \<open>w\<close>;
  \<^item> \<open>lin_solve\<close>: the direction returned by the inner solver (spec 4.5) for the
    Hessian at \<open>x\<close> and the residual \<open>r\<close>;
  \<^item> \<open>fit_error\<close>: the maximal surface-fit error of \<open>x\<close>;
  \<^item> \<open>rnorm\<close>: the norm of a residual vector;
  \<^item> \<open>max_halvings\<close>, \<open>w_ceiling\<close>: the bound on the halvings of one line search
    ("e.g. 12") and the ceiling of the fitting weight ("e.g. 10^10").
\<close>

record newton_ops =
  n_elem :: nat
  n_quad :: nat
  detJ :: "real list \<Rightarrow> nat \<Rightarrow> nat \<Rightarrow> real"
  energy :: "real \<Rightarrow> real list \<Rightarrow> real"
  residual :: "real \<Rightarrow> real list \<Rightarrow> real list"
  lin_solve :: "real \<Rightarrow> real list \<Rightarrow> real list \<Rightarrow> real list"
  fit_error :: "real list \<Rightarrow> real"
  rnorm :: "real list \<Rightarrow> real"
  max_halvings :: nat
  w_ceiling :: real

text \<open>
  Modelled from the spec: no inversion (spec 8), the determinant is positive at every
  quadrature point of every element. The integrator raises invalid-Jacobian exactly when
  this fails (spec 4.3).
\<close>

definition valid :: "newton_ops \<Rightarrow> real list \<Rightarrow> bool" where
  "valid ops x =
     list_all (\<lambda>e. list_all (\<lambda>q. 0 < detJ ops x e q) [0 ..< n_quad ops]) [0 ..< n_elem ops]"

text \<open>\<open>x + \<alpha> \<delta>\<close>.\<close>

definition step_to :: "real list \<Rightarrow> real \<Rightarrow> real list \<Rightarrow> real list" where
  "step_to x \<alpha> \<delta> = map2 (\<lambda>xi di. xi + \<alpha> * di) x \<delta>"

text \<open>
  Modelled from the spec: step 3 of 4.6, the validity-and-descent line search, at the
  step length \<open>\<alpha>\<close> with \<open>h\<close> halvings left: the trial point is taken when no element is inverted there and the objective has
  decreased; otherwise \<open>\<alpha>\<close> is halved, and after the last halving the search has failed.
\<close>

fun line_search :: "newton_ops \<Rightarrow> real \<Rightarrow> real list \<Rightarrow> real list \<Rightarrow> real \<Rightarrow> nat \<Rightarrow> real list option" where
  "line_search ops w x \<delta> \<alpha> 0 =
     (let x_trial = step_to x \<alpha> \<delta> in
      if valid ops x_trial \<and> energy ops w x_trial < energy ops w x then Some x_trial
      else None)"
| "line_search ops w x \<delta> \<alpha> (Suc h) =
     (let x_trial = step_to x \<alpha> \<delta> in
      if valid ops x_trial \<and> energy ops w x_trial < energy ops w x then Some x_trial
      else line_search ops w x \<delta> (\<alpha> / 2) h)"

datatype terminal = ConvergedByFit | ConvergedByResidual | LineSearchFailed | IterationLimit

text \<open>What a solve returns: the last iterate, the terminal state, and the iterates that
  step 4 accepted, in their order.\<close>

record newton_result =
  final_x :: "real list"
  terminal_state :: terminal
  accepted :: "real list list"

text \<open>
  Modelled from the spec: the surface-fit termination test \<open>\<epsilon> \<le> \<epsilon>*\<close> of steps 1 and 6;
  without a threshold it asks nothing in step 1 and never fires in step 6.
\<close>

definition fit_reached :: "newton_solver \<Rightarrow> real \<Rightarrow> bool" where
  "fit_reached cfg eps = (case surf_fit_max_threshold cfg of None \<Rightarrow> False | Some t \<Rightarrow> eps \<le> t)"

definition fit_satisfied :: "newton_solver \<Rightarrow> real \<Rightarrow> bool" where
  "fit_satisfied cfg eps = (case surf_fit_max_threshold cfg of None \<Rightarrow> True | Some t \<Rightarrow> eps \<le> t)"

text \<open>Modelled from the spec: step 5 of 4.6, the adaptive fitting-weight update.\<close>

definition next_weight :: "newton_solver \<Rightarrow> newton_ops \<Rightarrow> real \<Rightarrow> real \<Rightarrow> real \<Rightarrow> real" where
  "next_weight cfg ops w eps eps' =
     (if adaptive_surf_fit cfg \<and> eps' \<ge> eps then min (2 * w) (w_ceiling ops) else w)"

text \<open>
  Modelled from the spec: steps 1 to 6 of 4.6 and the terminal states, as the iteration
  with \<open>n\<close> steps left before the iteration limit, at the iterate \<open>x\<close> with
  weight \<open>w\<close> and last fit error \<open>eps\<close>; \<open>nr0\<close> is the norm of the first residual and \<open>acc\<close>
  the iterates accepted so far.
\<close>

fun newton_iter ::
  "newton_solver \<Rightarrow> newton_ops \<Rightarrow> real \<Rightarrow> nat \<Rightarrow> real list \<Rightarrow> real \<Rightarrow> real \<Rightarrow> real list list
   \<Rightarrow> newton_result" where
  "newton_iter cfg ops nr0 0 x w eps acc =
     (if rnorm ops (residual ops w x) \<le> max (rel_tol cfg * nr0) (abs_tol cfg) \<and>
         fit_satisfied cfg eps
      then \<lparr>final_x = x, terminal_state = ConvergedByResidual, accepted = acc\<rparr>
      else \<lparr>final_x = x, terminal_state = IterationLimit, accepted = acc\<rparr>)"
| "newton_iter cfg ops nr0 (Suc n) x w eps acc =
     (let r = residual ops w x in
      if rnorm ops r \<le> max (rel_tol cfg * nr0) (abs_tol cfg) \<and> fit_satisfied cfg eps
      then \<lparr>final_x = x, terminal_state = ConvergedByResidual, accepted = acc\<rparr>
      else
        (case line_search ops w x (lin_solve ops w x r) 1 (max_halvings ops) of
           None \<Rightarrow> \<lparr>final_x = x, terminal_state = LineSearchFailed, accepted = acc\<rparr>
         | Some x' \<Rightarrow>
             (let eps' = fit_error ops x' in
              if fit_reached cfg eps'
              then \<lparr>final_x = x', terminal_state = ConvergedByFit, accepted = acc @ [x']\<rparr>
              else newton_iter cfg ops nr0 n x' (next_weight cfg ops w eps eps') eps'
                     (acc @ [x']))))"

text \<open>
  Modelled from the spec: the solve from the iterate \<open>x_init\<close> with the initial weight
  \<open>w0\<close>, up to \<^verbatim>\<open>max_iter\<close> steps, the line search of each step started at \<open>\<alpha> = 1\<close>.
\<close>

definition TMOPNewtonSolver_Mult ::
  "newton_solver \<Rightarrow> newton_ops \<Rightarrow> real \<Rightarrow> real list \<Rightarrow> newton_result" where
  "TMOPNewtonSolver_Mult cfg ops w0 x_init =
     newton_iter cfg ops (rnorm ops (residual ops w0 x_init)) (nat (max_iter cfg))
       x_init w0 (fit_error ops x_init) []"

subsection \<open>A small run\<close>

text \<open>
  One straight-sided triangle with the vertices (0,1), (1/8,0) and (1,0), mesh order 1:
  three nodes, the coordinates stored by nodes (all x, then all y), and three boundary
  edges. The edge from node 1 to node 2 has attribute 2, the two others attribute 1.
\<close>

definition tri_fes :: fespace where
  "tri_fes =
     \<lparr>GetNDofs = 3,
      bdr_elements =
        [\<lparr>GetAttribute = 1, GetDof = 2, BdrElementVDofs = [0, 1, 3, 4]\<rparr>,
         \<lparr>GetAttribute = 2, GetDof = 2, BdrElementVDofs = [1, 2, 4, 5]\<rparr>,
         \<lparr>GetAttribute = 1, GetDof = 2, BdrElementVDofs = [2, 0, 5, 3]\<rparr>],
      nodes = [0, 1 / 8, 1, 1, 0, 0]\<rparr>"

text \<open>The variables after the loop of lines 93-126 on this space.\<close>

definition tri_fitted :: driver where
  "tri_fitted =
     \<lparr>coord = [0, 1 / 8, 1, 1, 0, 0], x0 = [0, 1 / 8, 1, 1, 0, 0],
      coord_target = [0, 1 / 8, 1, 1, 1 / 10, 0],
      fit_marker = [True, True, True],
      fit_marker_vis_gf = [1, 1, 1, 0, 0, 0],
      shown = []\<rparr>"

text \<open>
  A library that answers every mesh file with this triangle, has no hanging or shared
  nodes (the true-DOF vector is the vector itself), and whose solver returns the target
  positions.
\<close>

definition tri_lib :: "unit library" where
  "tri_lib =
     \<lparr>Mesh_read = (\<lambda>f. Some ()), UniformRefinement = (\<lambda>m. m), Dimension = (\<lambda>m. 2),
      ParFiniteElementSpace = (\<lambda>m fec d. tri_fes),
      MINRES_new = \<lparr>max_iter = 10, rel_tol = 0, abs_tol = 0, print_level = - 1\<rparr>,
      Newton_new = \<lparr>max_iter = 10, rel_tol = 0, abs_tol = 0, print_level = - 1,
                     adaptive_surf_fit = False, surf_fit_max_threshold = None\<rparr>,
      GetTrueVector = (\<lambda>fes v. v), SetFromTrueVector = (\<lambda>fes v. v),
      Mult = (\<lambda>cfg x. Some (surf_fit_pos (integ cfg)))\<rparr>"

definition tri_opts :: options where
  "tri_opts =
     \<lparr>Good = True, mesh_file = ''triangle.mesh'', rs_levels = 0, mesh_poly_deg = 1,
      quad_order = 5\<rparr>"

text \<open>The variables of that run when the solver is called, and when \<^verbatim>\<open>main\<close> returns.\<close>

definition tri_shown :: driver where
  "tri_shown =
     tri_fitted\<lparr>shown :=
       [(''Target positions (DOFS with value 1)'', [0, 1 / 8, 1, 1, 1 / 10, 0],
         [1, 1, 1, 0, 0, 0])]\<rparr>"

definition tri_final :: driver where
  "tri_final =
     tri_shown\<lparr>coord := [0, 1 / 8, 1, 1, 1 / 10, 0],
       shown :=
       [(''Target positions (DOFS with value 1)'', [0, 1 / 8, 1, 1, 1 / 10, 0],
         [1, 1, 1, 0, 0, 0]),
        (''Final mesh'', [0, 1 / 8, 1, 1, 1 / 10, 0], [])]\<rparr>"

text \<open>
  The same triangle split into three triangles at its centroid (3/8, 1/3): a fourth node,
  which lies on no boundary element. The boundary edges are as before, with the y
  components now at the entries 4 to 7. \<open>fan_shown\<close> and \<open>fan_final\<close> are the variables
  when the solver is called on this mesh and when \<^verbatim>\<open>main\<close> returns.
\<close>

definition fan_fes :: fespace where
  "fan_fes =
     \<lparr>GetNDofs = 4,
      bdr_elements =
        [\<lparr>GetAttribute = 1, GetDof = 2, BdrElementVDofs = [0, 1, 4, 5]\<rparr>,
         \<lparr>GetAttribute = 2, GetDof = 2, BdrElementVDofs = [1, 2, 5, 6]\<rparr>,
         \<lparr>GetAttribute = 1, GetDof = 2, BdrElementVDofs = [2, 0, 6, 4]\<rparr>],
      nodes = [0, 1 / 8, 1, 3 / 8, 1, 0, 0, 1 / 3]\<rparr>"

definition fan_lib :: "unit library" where
  "fan_lib = tri_lib\<lparr>ParFiniteElementSpace := (\<lambda>m fec d. fan_fes)\<rparr>"

definition fan_shown :: driver where
  "fan_shown =
     \<lparr>coord = [0, 1 / 8, 1, 3 / 8, 1, 0, 0, 1 / 3], x0 = [0, 1 / 8, 1, 3 / 8, 1, 0, 0, 1 / 3],
      coord_target = [0, 1 / 8, 1, 3 / 8, 1, 1 / 10, 0, 1 / 3],
      fit_marker = [True, True, True, False],
      fit_marker_vis_gf = [1, 1, 1, 0, 0, 0, 0, 0],
      shown =
        [(''Target positions (DOFS with value 1)'', [0, 1 / 8, 1, 3 / 8, 1, 1 / 10, 0, 1 / 3],
          [1, 1, 1, 0, 0, 0, 0, 0])]\<rparr>"

definition fan_final :: driver where
  "fan_final =
     fan_shown\<lparr>coord := [0, 1 / 8, 1, 3 / 8, 1, 1 / 10, 0, 1 / 3],
       shown :=
       [(''Target positions (DOFS with value 1)'', [0, 1 / 8, 1, 3 / 8, 1, 1 / 10, 0, 1 / 3],
         [1, 1, 1, 0, 0, 0, 0, 0]),
        (''Final mesh'', [0, 1 / 8, 1, 3 / 8, 1, 1 / 10, 0, 1 / 3], [])]\<rparr>"

text \<open>
  A one-dimensional solve: one element from 0 to the single coordinate, whose Jacobian
  determinant is that coordinate; the objective is the squared distance to 1/4, which is
  also the fitting target, and the inner solver always proposes the direction -1.
\<close>

definition line_ops :: newton_ops where
  "line_ops =
     \<lparr>n_elem = 1, n_quad = 1, detJ = (\<lambda>x e q. x ! 0),
      energy = (\<lambda>w x. (x ! 0 - 1 / 4) * (x ! 0 - 1 / 4)),
      residual = (\<lambda>w x. [2 * (x ! 0 - 1 / 4)]),
      lin_solve = (\<lambda>w x r. [- 1]),
      fit_error = (\<lambda>x. \<bar>x ! 0 - 1 / 4\<bar>),
      rnorm = (\<lambda>r. \<bar>r ! 0\<bar>),
      max_halvings = 12, w_ceiling = 10 ^ 10\<rparr>"

section \<open>Properties of the driver\<close>

subsection \<open>Results, array accesses and loops\<close>

lemma then_r_Inr: "then_r m f = Inr r \<longleftrightarrow> (\<exists>v. m = Inr v \<and> f v = Inr r)"
  by (cases m) (simp_all add: then_r_def)

lemma elem_Inr: "elem xs i = Inr v \<longleftrightarrow> 0 \<le> i \<and> i < int (length xs) \<and> v = xs ! nat i"
  by (auto simp: elem_def)

lemma put_Inr: "put xs i v = Inr ys \<longleftrightarrow> 0 \<le> i \<and> i < int (length xs) \<and> ys = xs[nat i := v]"
  by (auto simp: put_def)

lemma put_length: "put xs i v = Inr ys \<Longrightarrow> length ys = length xs"
  by (auto simp: put_def split: if_splits)

text \<open>
  An invariant that every successful pass of the body preserves holds after the loop.
\<close>

lemma for_r_invariant:
  assumes "for_r js body s = Inr s'" and "P s"
    and "\<And>s i s'. i \<in> set js \<Longrightarrow> P s \<Longrightarrow> body s i = Inr s' \<Longrightarrow> P s'"
  shows "P s'"
  using assms
proof (induction js arbitrary: s)
  case Nil
  then show ?case by simp
next
  case (Cons i rest)
  from Cons.prems(1) obtain s1 where b: "body s i = Inr s1" and r: "for_r rest body s1 = Inr s'"
    by (auto split: sum.splits)
  have "P s1" using Cons.prems(3)[of i s s1] Cons.prems(2) b by simp
  show ?case
  proof (rule Cons.IH[OF r \<open>P s1\<close>])
    fix t k t' assume "k \<in> set rest" "P t" "body t k = Inr t'"
    then show "P t'" using Cons.prems(3)[of k t t'] by simp
  qed
qed

text \<open>
  A fact that the pass for one index establishes and that every pass preserves holds after
  a loop that visits this index.
\<close>

lemma for_r_established:
  assumes "for_r js body s = Inr s'" and "i \<in> set js"
    and est: "\<And>t t'. body t i = Inr t' \<Longrightarrow> Q t'"
    and keep: "\<And>t k t'. Q t \<Longrightarrow> body t k = Inr t' \<Longrightarrow> Q t'"
  shows "Q s'"
  using assms(1,2)
proof (induction js arbitrary: s)
  case Nil
  then show ?case by simp
next
  case (Cons k rest)
  from Cons.prems(1) obtain s1 where b: "body s k = Inr s1" and r: "for_r rest body s1 = Inr s'"
    by (auto split: sum.splits)
  show ?case
  proof (cases "i = k")
    case True
    with b have "Q s1" using est by simp
    with r show ?thesis
      using for_r_invariant[where P = Q and js = rest and body = body and s = s1 and s' = s'] keep
      by blast
  next
    case False
    with Cons.prems(2) have "i \<in> set rest" by simp
    with Cons.IH[OF r] show ?thesis .
  qed
qed

subsection \<open>One pass of the fitting loop\<close>

text \<open>
  The assignment of lines 105-124 writes entry \<^verbatim>\<open>j_y\<close> of the target and nothing else;
  on a boundary element whose attribute is not 2 it writes \<^verbatim>\<open>y\<close>.
\<close>

lemma fit_target_Inr:
  assumes "fit_target attr crd j_x j_y x y z tgt = Inr tgt'"
  shows "\<exists>v. put tgt j_y v = Inr tgt' \<and> (attr \<noteq> 2 \<longrightarrow> v = y)"
proof (cases "attr = 2")
  case False
  with assms show ?thesis by (simp add: fit_target_def)
next
  case True
  with assms show ?thesis
    unfolding fit_target_def then_r_def
    by (auto split: sum.splits if_splits)
qed

lemma fit_dof_Inr:
  assumes "fit_dof d attr nd vdofs s j = Inr s'"
  shows "\<exists>j_x j_y v marker vis_gf tgt.
           elem vdofs j = Inr j_x \<and> elem vdofs (nd + j) = Inr j_y \<and>
           put (fit_marker s) j_x True = Inr marker \<and>
           put (fit_marker_vis_gf s) j_x 1 = Inr vis_gf \<and>
           put (coord_target s) j_y v = Inr tgt \<and>
           (attr \<noteq> 2 \<longrightarrow> elem (coord s) j_y = Inr v) \<and>
           s' = s\<lparr>fit_marker := marker, fit_marker_vis_gf := vis_gf, coord_target := tgt\<rparr>"
proof -
  from assms obtain j_x j_y x y z marker vis_gf tgt where
    a: "elem vdofs j = Inr j_x" "elem vdofs (nd + j) = Inr j_y"
       "elem (coord s) j_y = Inr y"
       "put (fit_marker s) j_x True = Inr marker"
       "put (fit_marker_vis_gf s) j_x 1 = Inr vis_gf"
       "s' = s\<lparr>fit_marker := marker, fit_marker_vis_gf := vis_gf, coord_target := tgt\<rparr>"
    and t: "fit_target attr (coord s) j_x j_y x y z (coord_target s) = Inr tgt"
    unfolding fit_dof_def then_r_Inr by auto
  from fit_target_Inr[OF t] obtain v where
    "put (coord_target s) j_y v = Inr tgt" "attr \<noteq> 2 \<longrightarrow> v = y" by blast
  with a show ?thesis by blast
qed

lemma fit_dof_frame:
  assumes "fit_dof d attr nd vdofs s j = Inr s'"
  shows "coord s' = coord s \<and> x0 s' = x0 s \<and> shown s' = shown s \<and>
         length (coord_target s') = length (coord_target s) \<and>
         length (fit_marker s') = length (fit_marker s) \<and>
         length (fit_marker_vis_gf s') = length (fit_marker_vis_gf s)"
  using fit_dof_Inr[OF assms] by (auto simp: put_length)

lemma elem_x_vdofs:
  assumes "elem vdofs j = Inr v" "j < nd"
  shows "v \<in> set (take (nat nd) vdofs)"
proof -
  from assms have "nat j < length (take (nat nd) vdofs)" "v = take (nat nd) vdofs ! nat j"
    by (auto simp: elem_Inr)
  then show ?thesis by (metis nth_mem)
qed

lemma elem_y_vdofs:
  assumes "elem vdofs (nd + j) = Inr v" "0 \<le> j" "j < nd"
  shows "v \<in> set (take (nat nd) (drop (nat nd) vdofs))"
proof -
  from assms have "nat j < length (take (nat nd) (drop (nat nd) vdofs))"
    by (auto simp: elem_Inr)
  moreover from assms have "v = take (nat nd) (drop (nat nd) vdofs) ! nat j"
    by (auto simp: elem_Inr nat_add_distrib)
  ultimately show ?thesis by (metis nth_mem)
qed

lemma fit_dof_tgt_inv:
  assumes run: "fit_dof d attr nd vdofs s j = Inr s'"
    and j: "0 \<le> j" "j < nd"
    and Y: "attr = 2 \<Longrightarrow> set (take (nat nd) (drop (nat nd) vdofs)) \<subseteq> Y"
    and inv: "tgt_inv Y s"
  shows "tgt_inv Y s'"
proof -
  from fit_dof_Inr[OF run] obtain j_y v marker vis_gf tgt where
    jy: "elem vdofs (nd + j) = Inr j_y"
    and p: "put (coord_target s) j_y v = Inr tgt"
    and v: "attr \<noteq> 2 \<longrightarrow> elem (coord s) j_y = Inr v"
    and s': "s' = s\<lparr>fit_marker := marker, fit_marker_vis_gf := vis_gf, coord_target := tgt\<rparr>"
    by blast
  from p have tgt: "tgt = (coord_target s)[nat j_y := v]" and pos: "0 \<le> j_y"
    by (simp_all add: put_Inr)
  have len: "length (coord_target s') = length (coord s')"
    using inv s' tgt by (simp add: tgt_inv_def)
  have "int i \<in> Y" if i: "i < length (coord s')" and ne: "coord_target s' ! i \<noteq> coord s' ! i" for i
  proof (cases "i = nat j_y")
    case False
    with ne s' tgt have "coord_target s ! i \<noteq> coord s ! i" by simp
    with inv i s' show ?thesis by (simp add: tgt_inv_def)
  next
    case True
    have "attr = 2"
    proof (rule ccontr)
      assume "attr \<noteq> 2"
      with v have "v = coord s ! nat j_y" by (simp add: elem_Inr)
      with ne True s' tgt i inv show False by (simp add: tgt_inv_def)
    qed
    with Y elem_y_vdofs[OF jy j] have "j_y \<in> Y" by blast
    with True pos show ?thesis by simp
  qed
  with len show ?thesis by (simp add: tgt_inv_def)
qed

subsection \<open>The two loops\<close>

lemma fit_bdr_element_frame:
  assumes "fit_bdr_element d s be = Inr s'"
  shows "coord s' = coord s \<and> x0 s' = x0 s \<and> shown s' = shown s \<and>
         length (fit_marker s') = length (fit_marker s)"
proof -
  let ?P = "\<lambda>t. coord t = coord s \<and> x0 t = x0 s \<and> shown t = shown s \<and>
         length (fit_marker t) = length (fit_marker s)"
  have "?P s'"
  proof (rule for_r_invariant[where P = ?P, OF assms[unfolded fit_bdr_element_def]])
    show "?P s" by simp
  next
    fix t j t'
    assume "?P t" "fit_dof d (GetAttribute be) (GetDof be) (BdrElementVDofs be) t j = Inr t'"
    then show "?P t'" using fit_dof_frame[of d _ _ _ t j t'] by simp
  qed
  then show ?thesis .
qed

lemma fit_bdr_element_tgt_inv:
  assumes run: "fit_bdr_element d s be = Inr s'"
    and Y: "GetAttribute be = 2 \<Longrightarrow> set (y_vdofs be) \<subseteq> Y"
    and inv: "tgt_inv Y s"
  shows "tgt_inv Y s'"
proof (rule for_r_invariant[where P = "tgt_inv Y", OF run[unfolded fit_bdr_element_def]])
  show "tgt_inv Y s" by (rule inv)
next
  fix t j t'
  assume "j \<in> set (map int [0..<nat (GetDof be)])" "tgt_inv Y t"
    and "fit_dof d (GetAttribute be) (GetDof be) (BdrElementVDofs be) t j = Inr t'"
  then show "tgt_inv Y t'"
    using Y fit_dof_tgt_inv[of d "GetAttribute be" "GetDof be" "BdrElementVDofs be" t j t' Y]
    by (auto simp: y_vdofs_def)
qed

lemma fit_setup_frame:
  assumes "fit_setup d fes = Inr s"
  shows "coord s = nodes fes \<and> x0 s = nodes fes \<and> shown s = [] \<and>
         length (fit_marker s) = nat (GetNDofs fes)"
proof -
  let ?P = "\<lambda>t. coord t = nodes fes \<and> x0 t = nodes fes \<and> shown t = [] \<and>
         length (fit_marker t) = nat (GetNDofs fes)"
  have "?P s"
  proof (rule for_r_invariant[where P = ?P, OF assms[unfolded fit_setup_def]])
    show "?P (init_driver fes)" by (simp add: init_driver_def)
  next
    fix t be t'
    assume "?P t" "fit_bdr_element d t be = Inr t'"
    then show "?P t'" using fit_bdr_element_frame[of d t be t'] by simp
  qed
  then show ?thesis .
qed

lemma fit_setup_tgt_inv:
  assumes "fit_setup d fes = Inr s"
  shows "tgt_inv (set (fitted_y fes)) s"
proof (rule for_r_invariant[where P = "tgt_inv (set (fitted_y fes))", OF assms[unfolded fit_setup_def]])
  show "tgt_inv (set (fitted_y fes)) (init_driver fes)"
    by (simp add: tgt_inv_def init_driver_def)
next
  fix t be t'
  assume "be \<in> set (bdr_elements fes)" "tgt_inv (set (fitted_y fes)) t"
    and "fit_bdr_element d t be = Inr t'"
  then show "tgt_inv (set (fitted_y fes)) t'"
    using fit_bdr_element_tgt_inv[of d t be t' "set (fitted_y fes)"]
    by (auto simp: fitted_y_def)
qed

text \<open>The marker: line 103 sets entry \<^verbatim>\<open>j_x\<close> and nothing else writes it.\<close>

lemma fit_dof_marker:
  assumes "fit_dof d attr nd vdofs s j = Inr s'"
  shows "\<exists>j_x. elem vdofs j = Inr j_x \<and> 0 \<le> j_x \<and> nat j_x < length (fit_marker s) \<and>
           fit_marker s' = (fit_marker s)[nat j_x := True]"
proof -
  from fit_dof_Inr[OF assms] obtain j_x marker vis_gf tgt where
    e: "elem vdofs j = Inr j_x" and p: "put (fit_marker s) j_x True = Inr marker"
    and s': "s' = s\<lparr>fit_marker := marker, fit_marker_vis_gf := vis_gf, coord_target := tgt\<rparr>"
    by blast
  from p have "0 \<le> j_x" "nat j_x < length (fit_marker s)" "marker = (fit_marker s)[nat j_x := True]"
    by (auto simp: put_Inr)
  with e s' show ?thesis by simp
qed

lemma fit_dof_marks:
  assumes "fit_dof d attr nd vdofs s j = Inr s'" and "elem vdofs j = Inr v"
  shows "marked v s'"
  using fit_dof_marker[OF assms(1)] assms(2) by (auto simp: marked_def)

lemma fit_dof_keeps_marked:
  assumes "marked v s" and "fit_dof d attr nd vdofs s j = Inr s'"
  shows "marked v s'"
proof -
  from fit_dof_marker[OF assms(2)] obtain j_x where
    "fit_marker s' = (fit_marker s)[nat j_x := True]" by blast
  with assms(1) show ?thesis by (cases "nat v = nat j_x") (simp_all add: marked_def)
qed

lemma fit_dof_marker_inv:
  assumes run: "fit_dof d attr nd vdofs s j = Inr s'" and j: "j < nd"
    and X: "set (take (nat nd) vdofs) \<subseteq> X" and inv: "marker_inv X s"
  shows "marker_inv X s'"
proof -
  from fit_dof_marker[OF run] obtain j_x where
    e: "elem vdofs j = Inr j_x" and pos: "0 \<le> j_x"
    and m: "fit_marker s' = (fit_marker s)[nat j_x := True]" by blast
  from elem_x_vdofs[OF e j] X have jx: "j_x \<in> X" by blast
  have "int i \<in> X" if "i < length (fit_marker s')" "fit_marker s' ! i" for i
  proof (cases "i = nat j_x")
    case True
    with pos jx show ?thesis by simp
  next
    case False
    with that m inv show ?thesis by (simp add: marker_inv_def)
  qed
  then show ?thesis by (simp add: marker_inv_def)
qed

lemma fit_bdr_element_keeps_marked:
  assumes "marked v s" and run: "fit_bdr_element d s be = Inr s'"
  shows "marked v s'"
proof (rule for_r_invariant[where P = "marked v", OF run[unfolded fit_bdr_element_def]])
  show "marked v s" by (rule assms(1))
next
  fix t j t'
  assume "marked v t" "fit_dof d (GetAttribute be) (GetDof be) (BdrElementVDofs be) t j = Inr t'"
  then show "marked v t'" by (rule fit_dof_keeps_marked)
qed

lemma fit_bdr_element_marks:
  assumes run: "fit_bdr_element d s be = Inr s'" and v: "v \<in> set (x_vdofs be)"
  shows "marked v s'"
proof -
  let ?nd = "nat (GetDof be)" and ?vd = "BdrElementVDofs be"
  from v obtain j where j: "j < length (x_vdofs be)" and vj: "v = x_vdofs be ! j"
    by (metis in_set_conv_nth)
  from j have jn: "j < ?nd" and jl: "j < length ?vd" by (simp_all add: x_vdofs_def)
  with vj have e: "elem ?vd (int j) = Inr v" by (simp add: elem_Inr x_vdofs_def)
  from jn have mem: "int j \<in> set (map int [0 ..< ?nd])" by simp
  show ?thesis
  proof (rule for_r_established[where Q = "marked v", OF run[unfolded fit_bdr_element_def] mem])
    fix t t'
    assume "fit_dof d (GetAttribute be) (GetDof be) ?vd t (int j) = Inr t'"
    then show "marked v t'" using e by (rule fit_dof_marks)
  next
    fix t k t'
    assume "marked v t" "fit_dof d (GetAttribute be) (GetDof be) ?vd t k = Inr t'"
    then show "marked v t'" by (rule fit_dof_keeps_marked)
  qed
qed

lemma fit_bdr_element_marker_inv:
  assumes run: "fit_bdr_element d s be = Inr s'"
    and X: "set (x_vdofs be) \<subseteq> X" and inv: "marker_inv X s"
  shows "marker_inv X s'"
proof (rule for_r_invariant[where P = "marker_inv X", OF run[unfolded fit_bdr_element_def]])
  show "marker_inv X s" by (rule inv)
next
  fix t j t'
  assume "j \<in> set (map int [0..<nat (GetDof be)])" "marker_inv X t"
    and "fit_dof d (GetAttribute be) (GetDof be) (BdrElementVDofs be) t j = Inr t'"
  then show "marker_inv X t'"
    using X fit_dof_marker_inv[of d "GetAttribute be" "GetDof be" "BdrElementVDofs be" t j t' X]
    by (auto simp: x_vdofs_def)
qed

lemma fit_setup_marks:
  assumes run: "fit_setup d fes = Inr s" and v: "v \<in> set (marked_x fes)"
  shows "marked v s"
proof -
  from v obtain be where be: "be \<in> set (bdr_elements fes)" and vb: "v \<in> set (x_vdofs be)"
    by (auto simp: marked_x_def)
  show ?thesis
  proof (rule for_r_established[where Q = "marked v", OF run[unfolded fit_setup_def] be])
    fix t t'
    assume "fit_bdr_element d t be = Inr t'"
    then show "marked v t'" using vb by (rule fit_bdr_element_marks)
  next
    fix t k t'
    assume "marked v t" "fit_bdr_element d t k = Inr t'"
    then show "marked v t'" by (rule fit_bdr_element_keeps_marked)
  qed
qed

lemma fit_setup_marker_inv:
  assumes run: "fit_setup d fes = Inr s"
  shows "marker_inv (set (marked_x fes)) s"
proof (rule for_r_invariant[where P = "marker_inv (set (marked_x fes))",
      OF run[unfolded fit_setup_def]])
  show "marker_inv (set (marked_x fes)) (init_driver fes)"
    by (simp add: marker_inv_def init_driver_def)
next
  fix t be t'
  assume "be \<in> set (bdr_elements fes)" "marker_inv (set (marked_x fes)) t"
    and "fit_bdr_element d t be = Inr t'"
  then show "marker_inv (set (marked_x fes)) t'"
    using fit_bdr_element_marker_inv[of d t be t' "set (marked_x fes)"]
    by (auto simp: marked_x_def)
qed

text \<open>
  After the loop the marker is set exactly at the \<^verbatim>\<open>j_x\<close> of the boundary DOFs, and each of
  them is an index of the marker.
\<close>

lemma fit_setup_marker:
  assumes run: "fit_setup d fes = Inr s"
  shows "(\<forall>v \<in> set (marked_x fes). 0 \<le> v \<and> v < GetNDofs fes) \<and>
         (\<forall>i < nat (GetNDofs fes). fit_marker s ! i \<longleftrightarrow> int i \<in> set (marked_x fes))"
proof -
  from fit_setup_frame[OF run] have len: "length (fit_marker s) = nat (GetNDofs fes)" by simp
  have a: "0 \<le> v \<and> v < GetNDofs fes" if "v \<in> set (marked_x fes)" for v
    using fit_setup_marks[OF run that] len by (simp add: marked_def)
  have b: "fit_marker s ! i \<longleftrightarrow> int i \<in> set (marked_x fes)" if "i < nat (GetNDofs fes)" for i
  proof
    assume "fit_marker s ! i"
    with fit_setup_marker_inv[OF run] that len show "int i \<in> set (marked_x fes)"
      by (simp add: marker_inv_def)
  next
    assume "int i \<in> set (marked_x fes)"
    from fit_setup_marks[OF run this] show "fit_marker s ! i" by (simp add: marked_def)
  qed
  from a b show ?thesis by blast
qed

lemma byNODES_fitted_y:
  assumes lay: "byNODES fes" and v: "v \<in> set (fitted_y fes)"
  shows "GetNDofs fes \<le> v \<and> v < 2 * GetNDofs fes \<and>
         (\<exists>be \<in> set (bdr_elements fes). GetAttribute be = 2 \<and> v - GetNDofs fes \<in> set (x_vdofs be))"
proof -
  from v obtain be where be: "be \<in> set (bdr_elements fes)" "GetAttribute be = 2"
    and vy: "v \<in> set (y_vdofs be)"
    by (auto simp: fitted_y_def)
  let ?nd = "nat (GetDof be)" and ?vd = "BdrElementVDofs be"
  from lay be have len: "2 * ?nd \<le> length ?vd"
    and ent: "\<And>j. j < ?nd \<Longrightarrow> 0 \<le> ?vd ! j \<and> ?vd ! j < GetNDofs fes \<and>
                 ?vd ! (?nd + j) = ?vd ! j + GetNDofs fes"
    by (auto simp: byNODES_def list_all_iff)
  from vy obtain j where j: "j < length (y_vdofs be)" and vj: "v = y_vdofs be ! j"
    by (metis in_set_conv_nth)
  from len have ly: "length (y_vdofs be) = ?nd" and lx: "length (x_vdofs be) = ?nd"
    by (simp_all add: y_vdofs_def x_vdofs_def)
  from j ly len have vj': "v = ?vd ! (?nd + j)"
    unfolding vj y_vdofs_def by simp
  from j ly lx have "x_vdofs be ! j = ?vd ! j" "j < length (x_vdofs be)"
    by (simp_all add: x_vdofs_def)
  then have xm: "?vd ! j \<in> set (x_vdofs be)" by (metis nth_mem)
  from j ly have "j < ?nd" by simp
  from ent[OF this] vj' have "GetNDofs fes \<le> v" "v < 2 * GetNDofs fes" "v - GetNDofs fes = ?vd ! j"
    by simp_all
  with xm be show ?thesis by auto
qed

subsection \<open>The statements around the loops\<close>

lemma before_solve_Inr:
  assumes "before_solve lib opts = Inr (d, fes, s)"
  shows "\<exists>t. fit_setup d fes = Inr t \<and> s = show_targets t"
  using assms unfolding before_solve_def
  by (auto simp: Let_def then_r_Inr)

lemma show_targets_fields:
  "coord (show_targets t) = x0 t \<and> x0 (show_targets t) = x0 t \<and>
   coord_target (show_targets t) = coord_target t \<and>
   fit_marker (show_targets t) = fit_marker t \<and>
   fit_marker_vis_gf (show_targets t) = fit_marker_vis_gf t \<and>
   shown (show_targets t) = shown t @
     [(''Target positions (DOFS with value 1)'', coord_target t, fit_marker_vis_gf t)]"
  by (simp add: show_targets_def Let_def)

lemma solve_frame:
  assumes "solve lib fes cfg s = Inr s'"
  shows "x0 s' = x0 s \<and> fit_marker s' = fit_marker s \<and> coord_target s' = coord_target s"
  using assms by (auto simp: solve_def Let_def split: option.splits)

subsection \<open>The small run, evaluated\<close>

lemma fit_setup_tri: "fit_setup 2 tri_fes = Inr tri_fitted"
  by (simp add: fit_setup_def tri_fes_def tri_fitted_def init_driver_def fit_bdr_element_def
      fit_dof_def fit_target_def then_r_def elem_def put_def eval_nat_numeral)

lemma before_solve_tri: "before_solve tri_lib tri_opts = Inr (2, tri_fes, tri_shown)"
  by (simp add: before_solve_def read_mesh_def then_r_def tri_lib_def tri_opts_def Let_def
      fit_setup_tri show_targets_def tri_shown_def tri_fitted_def)

lemma solve_tri:
  "solve tri_lib tri_fes (make_setup tri_lib 2 5 tri_shown) tri_shown = Inr tri_final"
  by (simp add: solve_def solver_input_def make_setup_def make_integ_def tri_lib_def Let_def
      tri_shown_def tri_final_def tri_fitted_def)

lemma run_tri: "run tri_lib tri_opts = Inr tri_final"
proof -
  have "quad_order tri_opts = 5" by (simp add: tri_opts_def)
  then show ?thesis using solve_tri by (simp add: run_def before_solve_tri then_r_def)
qed

lemma byNODES_tri: "byNODES tri_fes"
  unfolding byNODES_def tri_fes_def by (simp add: eval_nat_numeral atLeastLessThanSuc)

lemma before_solve_fan: "before_solve fan_lib tri_opts = Inr (2, fan_fes, fan_shown)"
  by (simp add: before_solve_def read_mesh_def fan_lib_def tri_lib_def tri_opts_def Let_def
      show_targets_def fan_shown_def fit_setup_def fan_fes_def init_driver_def
      fit_bdr_element_def fit_dof_def fit_target_def then_r_def elem_def put_def
      eval_nat_numeral)

lemma solve_fan:
  "solve fan_lib fan_fes (make_setup fan_lib 2 5 fan_shown) fan_shown = Inr fan_final"
  by (simp add: solve_def solver_input_def make_setup_def make_integ_def fan_lib_def tri_lib_def
      Let_def fan_shown_def fan_final_def)

subsection \<open>The claims about the driver\<close>

text \<open>
  C2. The Newton solver that the driver hands to the solve has the maximum iteration
  count 200, the relative tolerance \<open>10\<^sup>-\<^sup>1\<^sup>0\<close>, the absolute tolerance 0, the adaptive
  surface-fitting weight enabled and the surface-fit termination threshold \<open>10\<^sup>-\<^sup>2\<close>,
  whatever the constructor of the solver had set.
\<close>

theorem newton_solver_configuration:
  "max_iter (newton (make_setup lib d qo s)) = 200 \<and>
   rel_tol (newton (make_setup lib d qo s)) = 1 / 10 ^ 10 \<and>
   abs_tol (newton (make_setup lib d qo s)) = 0 \<and>
   adaptive_surf_fit (newton (make_setup lib d qo s)) = True \<and>
   surf_fit_max_threshold (newton (make_setup lib d qo s)) = Some (1 / 10 ^ 2)"
  by (simp add: make_setup_def make_newton_def SetMaxIter_def SetRelTol_def SetAbsTol_def
      SetPrintLevel_def EnableAdaptiveSurfaceFitting_def
      SetTerminationWithMaxSurfaceFittingError_def)

text \<open>
  C6. The inner linear solver that the driver installs as the preconditioner of the
  Newton solver is of the class \<^verbatim>\<open>MINRESSolver\<close>: it is the object that the constructor
  of that class returned, after the three setters of lines 147-149. Its absolute
  tolerance is 0, its relative tolerance \<open>10\<^sup>-\<^sup>1\<^sup>2\<close> and its maximum iteration count 100,
  whatever the constructor had set.
\<close>

theorem minres_configuration:
  "prec_class (make_setup lib d qo s) = MINRESSolver \<and>
   prec (make_setup lib d qo s) =
     SetAbsTol 0 (SetRelTol (1 / 10 ^ 12) (SetMaxIter 100 (MINRES_new lib))) \<and>
   abs_tol (prec (make_setup lib d qo s)) = 0 \<and>
   rel_tol (prec (make_setup lib d qo s)) = 1 / 10 ^ 12 \<and>
   max_iter (prec (make_setup lib d qo s)) = 100"
  by (simp add: make_setup_def make_minres_def SetMaxIter_def SetRelTol_def SetAbsTol_def)

text \<open>
  C7. \<^verbatim>\<open>main\<close> returns 1 exactly when the arguments did not parse, whatever the library
  would do with the mesh; and when they parsed and the run reaches the end of \<^verbatim>\<open>main\<close>,
  it returns 0.
\<close>

theorem main_exit_code:
  "(main lib opts = Inr 1 \<longleftrightarrow> \<not> Good opts) \<and>
   (Good opts \<and> run lib opts = Inr s \<longrightarrow> main lib opts = Inr 0)"
  by (auto simp: main_def split: sum.splits)

theorem main_exit_code_witness:
  "Good tri_opts \<and> run tri_lib tri_opts = Inr tri_final \<and> main tri_lib tri_opts = Inr 0 \<and>
   \<not> Good (tri_opts\<lparr>Good := False\<rparr>) \<and> main tri_lib (tri_opts\<lparr>Good := False\<rparr>) = Inr 1"
  using main_exit_code[of tri_lib tri_opts tri_final]
    main_exit_code[of tri_lib "tri_opts\<lparr>Good := False\<rparr>" tri_final] run_tri
  by (simp add: tri_opts_def)



text \<open>
  C9. When the solver is called, \<^verbatim>\<open>coord\<close> holds the initial coordinates of the mesh
  again, although the window of the targets was shown the mesh at the target
  coordinates; the vector that the solver receives is the true-DOF vector of the initial
  coordinates; and \<^verbatim>\<open>x0\<close> holds the initial coordinates before the solve and after it.
\<close>

theorem coord_restored_before_solve:
  assumes "before_solve lib opts = Inr (d, fes, s)"
  shows "coord s = nodes fes \<and> x0 s = nodes fes \<and>
         solver_input lib fes s = GetTrueVector lib fes (nodes fes) \<and>
         shown s = [(''Target positions (DOFS with value 1)'', coord_target s, fit_marker_vis_gf s)] \<and>
         (solve lib fes cfg s = Inr s' \<longrightarrow> x0 s' = nodes fes)"
proof -
  from before_solve_Inr[OF assms] obtain t where t: "fit_setup d fes = Inr t" "s = show_targets t"
    by blast
  have "x0 s' = nodes fes" if "solve lib fes cfg s = Inr s'"
    using solve_frame[OF that] fit_setup_frame[OF t(1)] t(2) by (simp add: show_targets_fields)
  with fit_setup_frame[OF t(1)] t(2) show ?thesis
    by (simp add: show_targets_fields solver_input_def)
qed

theorem coord_restored_before_solve_witness:
  "before_solve tri_lib tri_opts = Inr (2, tri_fes, tri_shown) \<and>
   coord tri_shown = [0, 1 / 8, 1, 1, 0, 0] \<and>
   solver_input tri_lib tri_fes tri_shown = [0, 1 / 8, 1, 1, 0, 0] \<and>
   coord_target tri_shown = [0, 1 / 8, 1, 1, 1 / 10, 0] \<and>
   solve tri_lib tri_fes (make_setup tri_lib 2 5 tri_shown) tri_shown = Inr tri_final \<and>
   x0 tri_final = [0, 1 / 8, 1, 1, 0, 0]"
  using coord_restored_before_solve[of tri_lib tri_opts 2 tri_fes tri_shown
      "make_setup tri_lib 2 5 tri_shown" tri_final]
    before_solve_tri solve_tri
  by (simp add: tri_fes_def tri_lib_def tri_shown_def tri_fitted_def)

text \<open>
  C5, as the code has it. The fit marker has \<^verbatim>\<open>GetNDofs()\<close> entries, one for each node
  (each DOF of one spatial component), not one for each scalar DOF of the coordinate
  field. It is indexed by \<^verbatim>\<open>j_x\<close>, the x-component DOF index of a node: every \<^verbatim>\<open>j_x\<close> of a
  boundary DOF is an index of the marker, and the entries that are set are exactly
  these. The integrator is given this array, and the array is the same after the solve
  as before it.
\<close>

theorem fit_marker_size_and_frame:
  assumes "before_solve lib opts = Inr (d, fes, s)"
  shows "length (fit_marker s) = nat (GetNDofs fes) \<and>
         (\<forall>v \<in> set (marked_x fes). 0 \<le> v \<and> v < GetNDofs fes) \<and>
         (\<forall>i < nat (GetNDofs fes). fit_marker s ! i \<longleftrightarrow> int i \<in> set (marked_x fes)) \<and>
         surf_fit_marker (integ (make_setup lib d qo s)) = fit_marker s \<and>
         (solve lib fes cfg s = Inr s' \<longrightarrow> fit_marker s' = fit_marker s)"
proof -
  from before_solve_Inr[OF assms] obtain t where t: "fit_setup d fes = Inr t" "s = show_targets t"
    by blast
  have m: "fit_marker s = fit_marker t" using t(2) by (simp add: show_targets_fields)
  have "fit_marker s' = fit_marker s" if "solve lib fes cfg s = Inr s'"
    using solve_frame[OF that] by simp
  moreover have "length (fit_marker s) = nat (GetNDofs fes)"
    using fit_setup_frame[OF t(1)] m by simp
  moreover have "surf_fit_marker (integ (make_setup lib d qo s)) = fit_marker s"
    by (simp add: make_setup_def make_integ_def)
  ultimately show ?thesis using fit_setup_marker[OF t(1)] m by simp
qed

theorem fit_marker_size_and_frame_witness:
  "before_solve fan_lib tri_opts = Inr (2, fan_fes, fan_shown) \<and>
   GetNDofs fan_fes = 4 \<and> marked_x fan_fes = [0, 1, 1, 2, 2, 0] \<and>
   fit_marker fan_shown = [True, True, True, False] \<and>
   solve fan_lib fan_fes (make_setup fan_lib 2 5 fan_shown) fan_shown = Inr fan_final \<and>
   fit_marker fan_final = [True, True, True, False]"
  using fit_marker_size_and_frame[of fan_lib tri_opts 2 fan_fes fan_shown 5
      "make_setup fan_lib 2 5 fan_shown" fan_final]
    before_solve_fan solve_fan
  by (simp add: fan_fes_def fan_shown_def fan_final_def marked_x_def x_vdofs_def)

text \<open>
  C5, as the claim has it, fails: in two dimensions on the triangle the coordinate field
  has 6 scalar DOFs and the marker 3 entries.
\<close>

theorem fit_marker_size_counterexample:
  "fit_setup 2 tri_fes = Inr tri_fitted \<and> length (fit_marker tri_fitted) = 3 \<and>
   2 * nat (GetNDofs tri_fes) = 6 \<and> length (coord tri_fitted) = 6"
  using fit_setup_tri by (simp add: tri_fes_def tri_fitted_def)

text \<open>
  C10, as the code has it. After the loop the target coordinates have the size of the
  coordinates and differ from the initial coordinates only at entries that are the
  \<^verbatim>\<open>j_y\<close> of a DOF of some boundary element with attribute 2. In the layout by nodes
  such an entry is a y component (so every x and every z component is the initial one),
  and its node lies on a boundary element with attribute 2 (so the y component of a
  node that lies on no such element is the initial one).
\<close>

theorem coord_target_differs_only_at_fitted_y:
  assumes "fit_setup d fes = Inr s"
  shows "length (coord_target s) = length (nodes fes) \<and>
         (\<forall>i < length (nodes fes). coord_target s ! i \<noteq> nodes fes ! i \<longrightarrow>
            int i \<in> set (fitted_y fes)) \<and>
         (byNODES fes \<longrightarrow>
            (\<forall>i < length (nodes fes). coord_target s ! i \<noteq> nodes fes ! i \<longrightarrow>
               GetNDofs fes \<le> int i \<and> int i < 2 * GetNDofs fes \<and>
               (\<exists>be \<in> set (bdr_elements fes).
                  GetAttribute be = 2 \<and> int i - GetNDofs fes \<in> set (x_vdofs be))))"
proof -
  from fit_setup_frame[OF assms] have c: "coord s = nodes fes" by simp
  from fit_setup_tgt_inv[OF assms] c
  have len: "length (coord_target s) = length (nodes fes)"
    and ch: "\<And>i. i < length (nodes fes) \<Longrightarrow> coord_target s ! i \<noteq> nodes fes ! i \<Longrightarrow>
                int i \<in> set (fitted_y fes)"
    by (simp_all add: tgt_inv_def)
  from len ch byNODES_fitted_y[of fes] show ?thesis by blast
qed

theorem coord_target_differs_only_at_fitted_y_witness:
  "fit_setup 2 tri_fes = Inr tri_fitted \<and> byNODES tri_fes \<and>
   length (coord_target tri_fitted) = 6 \<and>
   coord_target tri_fitted ! 4 \<noteq> nodes tri_fes ! 4 \<and>
   int 4 \<in> set (fitted_y tri_fes) \<and> GetNDofs tri_fes \<le> int 4 \<and> int 4 < 2 * GetNDofs tri_fes"
proof -
  have h: "fit_setup 2 tri_fes = Inr tri_fitted" by (rule fit_setup_tri)
  have l: "byNODES tri_fes" by (rule byNODES_tri)
  have d: "coord_target tri_fitted ! 4 \<noteq> nodes tri_fes ! 4" "(4::nat) < length (nodes tri_fes)"
    by (simp_all add: tri_fitted_def tri_fes_def)
  note t = coord_target_differs_only_at_fitted_y[OF h]
  from t d have m: "int 4 \<in> set (fitted_y tri_fes)" by blast
  from t l d have r: "GetNDofs tri_fes \<le> int 4 \<and> int 4 < 2 * GetNDofs tri_fes" by blast
  from t have len: "length (coord_target tri_fitted) = 6" by (simp add: tri_fes_def)
  from h l d m r len show ?thesis by simp
qed

text \<open>
  C10, as the claim has it, fails where a node lies on two boundary elements of which
  the later one has attribute 2: node 1 of the triangle is a DOF of boundary element 0,
  whose attribute is 1, and its y component (entry 4) has the target 1/10 and the
  initial value 0.
\<close>

theorem coord_target_shared_node_counterexample:
  "fit_setup 2 tri_fes = Inr tri_fitted \<and>
   GetAttribute (bdr_elements tri_fes ! 0) = 1 \<and>
   x_vdofs (bdr_elements tri_fes ! 0) = [0, 1] \<and> y_vdofs (bdr_elements tri_fes ! 0) = [3, 4] \<and>
   coord_target tri_fitted ! 4 = 1 / 10 \<and> nodes tri_fes ! 4 = 0"
  using fit_setup_tri by (simp add: tri_fes_def tri_fitted_def x_vdofs_def y_vdofs_def)

section \<open>Properties of the library side as specified\<close>

subsection \<open>Metrics and target\<close>

text \<open>
  The matrix \<open>inverse3 T\<close> is the inverse of \<open>T\<close>, and the 2D shape metric is not negative.
\<close>

lemma inverse3_right:
  assumes "det3 [[a, b, c], [d, e, f], [g, h, i]] \<noteq> 0"
  shows "matmul [[a, b, c], [d, e, f], [g, h, i]] (inverse3 [[a, b, c], [d, e, f], [g, h, i]]) =
         identity_matrix 3"
proof -
  define D where "D = a * (e * i - f * h) - b * (d * i - f * g) + c * (d * h - e * g)"
  have D: "D \<noteq> 0" using assms by (simp add: D_def)
  have t: "transpose [[x1, x2, x3], [y1, y2, y3], [z1, z2, z3]] = [[x1, y1, z1], [x2, y2, z2], [x3, y3, z3]]"
    for x1 x2 x3 y1 y2 y3 z1 z2 z3 :: real
    by (simp add: transpose.simps)
  have i3: "identity_matrix 3 = [[1, 0, 0], [0, 1, 0], [0, 0, 1]]"
    by (simp add: identity_matrix_def eval_nat_numeral)
  have r: "x * (p / D) + (y * (q / D) + z * (u / D)) = (x * p + y * q + z * u) / D" for x y z p q u
    by (simp add: add_divide_distrib)
  have one: "x = D \<Longrightarrow> x / D = 1" and zero: "x = 0 \<Longrightarrow> x / D = 0" for x
    using D by simp_all
  show ?thesis
    using D[unfolded D_def]
    unfolding i3 matmul_def inverse3.simps det3.simps Let_def D_def[symmetric] t
    apply (simp add: r del: times_divide_eq_right)
    apply (intro conjI one zero)
            apply (simp_all add: D_def algebra_simps)
    done
qed

lemma mu2_nonneg:
  assumes "EvalW TMOP_Metric_002 [[a, b], [c, d]] = Some m"
  shows "0 \<le> m"
proof -
  from assms have pos: "0 < a * d - b * c" and m: "m = 1 / 2 * (a * a + b * b + c * c + d * d) / (a * d - b * c) - 1"
    by (auto simp: frob2_def split: if_splits)
  have "0 \<le> (a - d) * (a - d) + (b + c) * (b + c)" by simp
  then have "2 * (a * d - b * c) \<le> a * a + b * b + c * c + d * d" by (simp add: algebra_simps)
  with pos have "1 \<le> 1 / 2 * (a * a + b * b + c * c + d * d) / (a * d - b * c)"
    by (simp add: field_simps)
  with m show ?thesis by simp
qed



lemma identity_matrix_entries:
  "length (identity_matrix n) = n \<and>
   (\<forall>i<n. length (identity_matrix n ! i) = n \<and>
      (\<forall>j<n. identity_matrix n ! i ! j = (if i = j then 1 else 0)))"
  by (simp add: identity_matrix_def)

text \<open>
  C4. The target type that the driver passes to the target constructor is
  \<^verbatim>\<open>IDEAL_SHAPE_UNIT_SIZE\<close>, and the target Jacobian of the driver's target is the identity
  matrix of the dimension at every quadrature point of every element, whatever the
  other variants return: it is the same for any two elements and points, and depends on
  nothing but the arguments.
\<close>

theorem target_is_identity:
  "target (integ (make_setup lib d qo s)) = IDEAL_SHAPE_UNIT_SIZE \<and>
   target_jacobian other (target (integ (make_setup lib d qo s))) n e q = identity_matrix n \<and>
   length (identity_matrix n) = n \<and>
   (\<forall>i<n. length (identity_matrix n ! i) = n \<and>
      (\<forall>j<n. identity_matrix n ! i ! j = (if i = j then 1 else 0))) \<and>
   target_jacobian other (target (integ (make_setup lib d qo s))) n e q =
     target_jacobian other (target (integ (make_setup lib d qo s))) n e' q'"
  using identity_matrix_entries[of n]
  by (simp add: make_setup_def make_integ_def)

theorem target_is_identity_witness:
  "target (integ (make_setup tri_lib 2 5 tri_shown)) = IDEAL_SHAPE_UNIT_SIZE \<and>
   target_jacobian (\<lambda>k n e q. [[real e]]) (target (integ (make_setup tri_lib 2 5 tri_shown))) 2 0 0 =
     [[1, 0], [0, 1]] \<and>
   target_jacobian (\<lambda>k n e q. [[real e]]) (target (integ (make_setup tri_lib 3 5 tri_shown))) 3 7 4 =
     [[1, 0, 0], [0, 1, 0], [0, 0, 1]] \<and>
   target_jacobian (\<lambda>k n e q. [[real e]]) (Other_TargetType 1) 3 7 4 = [[7]]"
  using target_is_identity[of tri_lib 2 5 tri_shown "\<lambda>k n e q. [[real e]]" 2 0 0 0 0]
    target_is_identity[of tri_lib 3 5 tri_shown "\<lambda>k n e q. [[real e]]" 3 7 4 0 0]
  by (simp add: identity_matrix_def eval_nat_numeral)

subsection \<open>The Newton solver\<close>

text \<open>
  A trial point that the line search returns has no inverted element and a smaller
  objective.
\<close>

lemma line_search_Some:
  "line_search ops w x \<delta> \<alpha> h = Some x' \<Longrightarrow>
     valid ops x' \<and> energy ops w x' < energy ops w x"
  by (induction h arbitrary: \<alpha>) (auto simp: Let_def split: if_splits)

lemma newton_iter_accepted:
  assumes "\<forall>y \<in> set acc. valid ops y" and "x = last (x_init # acc)"
  shows "(\<forall>y \<in> set (accepted (newton_iter cfg ops nr0 n x w eps acc)). valid ops y) \<and>
         final_x (newton_iter cfg ops nr0 n x w eps acc) =
           last (x_init # accepted (newton_iter cfg ops nr0 n x w eps acc))"
  using assms
proof (induction n arbitrary: x w eps acc)
  case 0
  then show ?case by simp
next
  case (Suc n)
  let ?R = "newton_iter cfg ops nr0 (Suc n) x w eps acc"
  show ?case
  proof (cases "rnorm ops (residual ops w x) \<le> max (rel_tol cfg * nr0) (abs_tol cfg) \<and>
         fit_satisfied cfg eps")
    case True
    then have "?R = \<lparr>final_x = x, terminal_state = ConvergedByResidual, accepted = acc\<rparr>"
      by (simp add: Let_def)
    with Suc.prems show ?thesis by simp
  next
    case False
    show ?thesis
    proof (cases "line_search ops w x (lin_solve ops w x (residual ops w x)) 1 (max_halvings ops)")
      case None
      with False have "?R = \<lparr>final_x = x, terminal_state = LineSearchFailed, accepted = acc\<rparr>"
        by (auto simp: Let_def)
      with Suc.prems show ?thesis by simp
    next
      case (Some x')
      from line_search_Some[OF Some] have v: "valid ops x'" by simp
      with Suc.prems have a: "\<forall>y \<in> set (acc @ [x']). valid ops y" by simp
      have l: "x' = last (x_init # acc @ [x'])" by simp
      show ?thesis
      proof (cases "fit_reached cfg (fit_error ops x')")
        case True
        with False Some
        have "?R = \<lparr>final_x = x', terminal_state = ConvergedByFit, accepted = acc @ [x']\<rparr>"
          by (auto simp: Let_def)
        with a show ?thesis by simp
      next
        case nr: False
        with False Some
        have "?R = newton_iter cfg ops nr0 n x'
                (next_weight cfg ops w eps (fit_error ops x')) (fit_error ops x') (acc @ [x'])"
          by (auto simp: Let_def)
        with Suc.IH[OF a l] show ?thesis by simp
      qed
    qed
  qed
qed

lemma line_run:
  "TMOPNewtonSolver_Mult (make_newton (Newton_new tri_lib)) line_ops 100 [1 / 2] =
     \<lparr>final_x = [1 / 4], terminal_state = ConvergedByFit, accepted = [[1 / 4]]\<rparr>"
  by (simp add: TMOPNewtonSolver_Mult_def line_ops_def valid_def step_to_def
      fit_reached_def fit_satisfied_def make_newton_def tri_lib_def SetMaxIter_def SetRelTol_def
      SetAbsTol_def SetPrintLevel_def EnableAdaptiveSurfaceFitting_def
      SetTerminationWithMaxSurfaceFittingError_def eval_nat_numeral Let_def)

text \<open>
  C1. Every iterate that a step of the solve accepted has a positive Jacobian
  determinant at every quadrature point of every element. The output is the last
  accepted iterate, or the initial iterate when no step was accepted; so the output has
  this property too whenever the initial iterate has it.
\<close>

theorem accepted_iterates_not_inverted:
  "(\<forall>x \<in> set (accepted (TMOPNewtonSolver_Mult cfg ops w0 x_init)). valid ops x) \<and>
   final_x (TMOPNewtonSolver_Mult cfg ops w0 x_init) =
     last (x_init # accepted (TMOPNewtonSolver_Mult cfg ops w0 x_init)) \<and>
   (valid ops x_init \<longrightarrow> valid ops (final_x (TMOPNewtonSolver_Mult cfg ops w0 x_init)))"
proof -
  let ?R = "TMOPNewtonSolver_Mult cfg ops w0 x_init"
  have a: "(\<forall>y \<in> set (accepted ?R). valid ops y) \<and> final_x ?R = last (x_init # accepted ?R)"
    unfolding TMOPNewtonSolver_Mult_def by (rule newton_iter_accepted) simp_all
  moreover have "valid ops (last (x_init # accepted ?R))" if "valid ops x_init"
    using that a by (cases "accepted ?R = []") simp_all
  ultimately show ?thesis by simp
qed

theorem accepted_iterates_not_inverted_witness:
  "valid line_ops [1 / 2] \<and> \<not> valid line_ops [- 1 / 2] \<and> \<not> valid line_ops [0] \<and>
   accepted (TMOPNewtonSolver_Mult (make_newton (Newton_new tri_lib)) line_ops 100 [1 / 2]) =
     [[1 / 4]] \<and>
   valid line_ops [1 / 4] \<and>
   valid line_ops
     (final_x (TMOPNewtonSolver_Mult (make_newton (Newton_new tri_lib)) line_ops 100 [1 / 2]))"
  using accepted_iterates_not_inverted[of "make_newton (Newton_new tri_lib)" line_ops 100 "[1 / 2]"]
    line_run
  by (simp add: valid_def line_ops_def)

end
